theory Spec2Isabelle
  imports Main "HOL-Library.AList" "HOL-Library.Char_ord" "HOL-Library.List_Lexorder"
    "HOL-Library.Multiset"
begin

section \<open>Python strings\<close>

text \<open>
  A Python \<^verbatim>\<open>str\<close> is modelled as a \<^typ>\<open>string\<close>, one \<^typ>\<open>char\<close> per code point, for
  the code points 0 to 255 (ASCII and the Latin-1 supplement); strings with code points
  beyond 255 are outside the model. \<^verbatim>\<open>str.strip()\<close> removes leading and trailing
  whitespace; among these code points \<^verbatim>\<open>str.isspace\<close> holds of 9 to 13, 28 to 32, 133
  (U+0085) and 160 (U+00A0). \<^verbatim>\<open>str.lower()\<close> maps \<^verbatim>\<open>A\<close>..\<^verbatim>\<open>Z\<close> and the capital letters
  U+00C0..U+00DE of the Latin-1 supplement (all of that range but the multiplication sign
  U+00D7) to the code point 32 above, and leaves every other code point below 256 alone. The
  three status glyphs of the source are beyond code point 255; they are only ever
  concatenated into messages, and stand here as their UTF-8 bytes.
\<close>

definition py_isspace :: "char \<Rightarrow> bool" where
  "py_isspace c \<longleftrightarrow> c \<in> set [CHR 0x09, CHR 0x0A, CHR 0x0B, CHR 0x0C, CHR 0x0D,
     CHR 0x1C, CHR 0x1D, CHR 0x1E, CHR 0x1F, CHR 0x20, CHR 0x85, CHR 0xA0]"

definition py_strip :: "string \<Rightarrow> string" where
  "py_strip s = rev (dropWhile py_isspace (rev (dropWhile py_isspace s)))"

definition lower_char :: "char \<Rightarrow> char" where
  "lower_char c =
     (if (CHR ''A'' \<le> c \<and> c \<le> CHR ''Z'') \<or> (CHR 0xC0 \<le> c \<and> c \<le> CHR 0xDE \<and> c \<noteq> CHR 0xD7)
      then char_of (of_char c + (32::nat)) else c)"

definition py_lower :: "string \<Rightarrow> string" where
  "py_lower s = map lower_char s"

text \<open>\<^verbatim>\<open>s.split(",")\<close>: one more piece than there are commas; the empty string gives
  one empty piece.\<close>

fun py_split_comma :: "string \<Rightarrow> string list" where
  "py_split_comma [] = [[]]"
| "py_split_comma (c # cs) =
     (if c = CHR '','' then [] # py_split_comma cs
      else (case py_split_comma cs of
              t # ts \<Rightarrow> (c # t) # ts
            | [] \<Rightarrow> [[c]]))"

text \<open>\<^verbatim>\<open>str(n)\<close> of a non-negative integer: its decimal digits.\<close>

definition digit_char :: "nat \<Rightarrow> char" where
  "digit_char d = char_of (48 + d)"

function py_str_nat :: "nat \<Rightarrow> string" where
  "py_str_nat n = (if n < 10 then [digit_char n] else py_str_nat (n div 10) @ [digit_char (n mod 10)])"
  by pat_completeness auto
termination
  by (relation "measure id") auto

declare py_str_nat.simps [simp del]

text \<open>\<^verbatim>\<open>repr\<close> of a string that has no quote, backslash or unprintable character (the
  two column names below are such strings), and of a list of such strings.\<close>

definition py_repr_str :: "string \<Rightarrow> string" where
  "py_repr_str s = [CHR 0x27] @ s @ [CHR 0x27]"

fun py_join :: "string \<Rightarrow> string list \<Rightarrow> string" where
  "py_join sep [] = []"
| "py_join sep [x] = x"
| "py_join sep (x # y # ys) = x @ sep @ py_join sep (y # ys)"

definition py_repr_list :: "string list \<Rightarrow> string" where
  "py_repr_list xs = ''['' @ py_join '', '' (map py_repr_str xs) @ '']''"

definition OK :: string where
  "OK = [CHR 0xE2, CHR 0x9C, CHR 0x85]"

definition FAIL :: string where
  "FAIL = [CHR 0xF0, CHR 0x9F, CHR 0x9B, CHR 0x91]"

definition INFO :: string where
  "INFO = [CHR 0xF0, CHR 0x9F, CHR 0x93, CHR 0x9D]"

section \<open>Models\<close>

record DataQualityRule =
  data_quality_control_name :: string
  header :: string

definition normalized_name :: "DataQualityRule \<Rightarrow> string" where
  "normalized_name r = py_lower (py_strip (data_quality_control_name r))"

definition header_set :: "DataQualityRule \<Rightarrow> string set" where
  "header_set r =
     (if header r = [] then {}
      else set [py_lower (py_strip h). h \<leftarrow> py_split_comma (header r), py_strip h \<noteq> []])"

text \<open>
  A cell of a table is a Python object of which the code reads two things: whether
  \<^verbatim>\<open>pd.isna\<close> holds of it, and its \<^verbatim>\<open>str()\<close>. A table has its column labels and its
  rows; a row gives the cell under a label. The code reads a row only under a label it has
  checked to be a column, so the value of a row elsewhere is never looked at. Column labels
  are taken to be strings, each at most once in a table.
\<close>

record cell =
  isna :: bool
  str_of :: string

record DataFrame =
  columns :: "string list"
  rows :: "(string \<Rightarrow> cell) list"

text \<open>
  A Python \<^verbatim>\<open>dict\<close> is an association list in insertion order. The metadata of a field is
  a dict of which only the entry \<^verbatim>\<open>"header"\<close> is read; its values are taken to be strings.
\<close>

record DataSet =
  name :: string
  dataframe :: DataFrame
  dq_rules :: "DataQualityRule list"
  fields_dict :: "(string \<times> (string \<times> string) list) list"

definition rule_names :: "DataSet \<Rightarrow> string set" where
  "rule_names s = set (map normalized_name (dq_rules s))"

definition rule_by_name :: "DataSet \<Rightarrow> (string \<times> DataQualityRule) list" where
  "rule_by_name s = fold (\<lambda>r d. AList.update (normalized_name r) r d) (dq_rules s) []"

section \<open>Helpers\<close>

datatype error = ValueError string | KeyError string

definition required :: "string set" where
  "required = {''data_quality_control_name'', ''header''}"

definition missing_columns_msg :: "string list \<Rightarrow> string" where
  "missing_columns_msg missing =
     ''Rules sheet missing columns: '' @ py_repr_list missing @ ''. '' @
     ''Expected: '' @ py_repr_list (sorted_list_of_set required)"

definition rule_of_row :: "(string \<Rightarrow> cell) \<Rightarrow> DataQualityRule" where
  "rule_of_row row =
     \<lparr>data_quality_control_name = str_of (row ''data_quality_control_name''),
      header = (if isna (row ''header'') then [] else str_of (row ''header''))\<rparr>"

text \<open>
  \<^verbatim>\<open>list(required - set(df.columns))\<close> lists a set of strings in the set's iteration
  order, which depends on the string hashes of the running interpreter. The order is a
  parameter of the model: \<open>set_iter S\<close> is the list that iterating over the set \<open>S\<close>
  gives.
\<close>

definition rules_from_df ::
  "(string set \<Rightarrow> string list) \<Rightarrow> DataFrame \<Rightarrow> error + DataQualityRule list" where
  "rules_from_df set_iter df =
     (if \<not> required \<subseteq> set (columns df) then
        (let missing = set_iter (required - set (columns df))
         in Inl (ValueError (missing_columns_msg missing)))
      else Inr [rule_of_row row. row \<leftarrow> rows df])"

definition field_missing :: "DataSet \<Rightarrow> (string \<times> string) list \<Rightarrow> bool" where
  "field_missing src meta =
     (case map_of meta ''header'' of
        None \<Rightarrow> True
      | Some h \<Rightarrow> h = [] \<or> h \<notin> set (columns (dataframe src)))"

definition missing_fields :: "DataSet \<Rightarrow> string list" where
  "missing_fields src =
     [field_name. (field_name, meta) \<leftarrow> fields_dict src, field_missing src meta]"

definition find_missing_headers ::
  "(string \<times> DataSet) list \<Rightarrow> (string \<times> string list) list" where
  "find_missing_headers sources =
     fold (\<lambda>(_, src) result.
             (let missing = missing_fields src
              in if missing \<noteq> [] then AList.update (name src) missing result else result))
          sources []"

definition quoted :: "string \<Rightarrow> string" where
  "quoted s = [CHR 0x27] @ s @ [CHR 0x27]"

fun compare_rule_counts :: "DataSet \<Rightarrow> (string \<times> DataSet) list \<Rightarrow> bool \<times> string" where
  "compare_rule_counts main [] =
     (True, OK @ '' All sources have the same number of rules as '' @ quoted (name main) @ ''.'')"
| "compare_rule_counts main ((_, s) # others) =
     (let m = length (rows (dataframe main)); n = length (rows (dataframe s))
      in if n \<noteq> m then
           (False, FAIL @ '' '' @ quoted (name main) @ '' has '' @ py_str_nat m @ '' rules; '' @
                   quoted (name s) @ '' has '' @ py_str_nat n @ ''.'')
         else compare_rule_counts main others)"

definition exclusive_rule_names ::
  "DataSet \<Rightarrow> (string \<times> DataSet) list \<Rightarrow> (string \<times> string list) list" where
  "exclusive_rule_names main others =
     (let main_names = rule_names main
      in fold (\<lambda>(_, s) exclusives.
                 (let only_there = rule_names s - main_names
                  in if only_there \<noteq> {}
                     then AList.update (name s) (sorted_list_of_set only_there) exclusives
                     else exclusives))
              others [])"

text \<open>\<^verbatim>\<open>d.setdefault(k, []).append(x)\<close>: a new key goes to the end of the dict with the
  list \<^verbatim>\<open>[x]\<close>; the list of a key already there grows by \<^verbatim>\<open>x\<close>, in place.\<close>

definition setdefault_append ::
  "string \<Rightarrow> string \<Rightarrow> (string \<times> string list) list \<Rightarrow> (string \<times> string list) list" where
  "setdefault_append k x d =
     (case map_of d k of
        None \<Rightarrow> d @ [(k, [x])]
      | Some l \<Rightarrow> AList.update k (l @ [x]) d)"

definition sync_check ::
  "DataSet \<Rightarrow> (string \<times> DataSet) list \<Rightarrow> (string \<times> string list) list" where
  "sync_check main others =
     (let main_index = rule_by_name main
      in fold (\<lambda>(_, s) mismatches.
                 fold (\<lambda>r mm.
                         (case map_of main_index (normalized_name r) of
                            None \<Rightarrow> mm
                          | Some mr \<Rightarrow>
                              if header_set r \<noteq> header_set mr
                              then setdefault_append (name s) (data_quality_control_name r) mm
                              else mm))
                      (dq_rules s) mismatches)
              others [])"

section \<open>Orchestration\<close>

record Report =
  ok :: bool
  missing_headers :: "(string \<times> string list) list"
  main_source :: string
  rule_count_ok :: bool
  rule_count_msg :: string
  exclusives :: "(string \<times> string list) list"
  mismatches :: "(string \<times> string list) list"
  emoji :: "(string \<times> string) list"

text \<open>
  \<open>main_key = None\<close> is the call without a main key; then the first key of the dict is
  taken. \<^verbatim>\<open>sources[main_key]\<close> raises \<^verbatim>\<open>KeyError\<close> for a key that the dict does not
  have.
\<close>

definition run_health_check ::
  "(string \<times> DataSet) list \<Rightarrow> string option \<Rightarrow> error + Report" where
  "run_health_check sources main_key =
     (case sources of
        [] \<Rightarrow> Inl (ValueError ''No sources uploaded.'')
      | (first_key, _) # _ \<Rightarrow>
          (let missing = find_missing_headers sources;
               main_key = (case main_key of None \<Rightarrow> first_key | Some k \<Rightarrow> k)
           in case map_of sources main_key of
                None \<Rightarrow> Inl (KeyError main_key)
              | Some main \<Rightarrow>
                  (let others = [(k, v) \<leftarrow> sources. k \<noteq> main_key];
                       (same_count, rule_msg) = compare_rule_counts main others;
                       exclusives = (if same_count then exclusive_rule_names main others else []);
                       mismatches = (if same_count then sync_check main others else [])
                   in Inr \<lparr>ok = missing = [] \<and> same_count \<and> exclusives = [] \<and> mismatches = [],
                           missing_headers = missing,
                           main_source = name main,
                           rule_count_ok = same_count,
                           rule_count_msg = rule_msg,
                           exclusives = exclusives,
                           mismatches = mismatches,
                           emoji = [(''OK'', OK), (''FAIL'', FAIL), (''INFO'', INFO)]\<rparr>)))"

section \<open>Example inputs\<close>

text \<open>
  Sources built the way the upload handler builds them: the table has the two rule columns,
  one row per rule, the rules are those of the rows, and every column is declared as a field
  whose expected header is the column itself.
\<close>

definition table_of :: "(string \<times> string) list \<Rightarrow> DataFrame" where
  "table_of rs =
     \<lparr>columns = [''data_quality_control_name'', ''header''],
      rows = [(\<lambda>c. \<lparr>isna = False, str_of = (if c = ''header'' then h else n)\<rparr>). (n, h) \<leftarrow> rs]\<rparr>"

definition source_of :: "string \<Rightarrow> (string \<times> string) list \<Rightarrow> DataSet" where
  "source_of nm rs =
     \<lparr>name = nm,
      dataframe = table_of rs,
      dq_rules = [\<lparr>data_quality_control_name = n, header = h\<rparr>. (n, h) \<leftarrow> rs],
      fields_dict = [(c, [(''header'', c)]). c \<leftarrow> columns (table_of rs)]\<rparr>"

definition src_main :: DataSet where
  "src_main = source_of ''main.xlsx'' [(''Check A'', ''col1,col2''), (''Check B'', ''col3'')]"

definition src_same :: DataSet where
  "src_same = source_of ''same.xlsx'' [(''check b '', ''COL3''), (''check a'', ''col2, col1'')]"

definition src_short :: DataSet where
  "src_short = source_of ''short.xlsx'' [(''Check A'', ''col1'')]"

section \<open>Statements of the specification\<close>

text \<open>The failure message of the row-count comparison as the specification words it, with
  \<^verbatim>\<open>rules\<close> after the second count as well.\<close>

definition spec_fail_msg :: "DataSet \<Rightarrow> DataSet \<Rightarrow> string" where
  "spec_fail_msg main other =
     FAIL @ '' '' @ quoted (name main) @ '' has '' @
     py_str_nat (length (rows (dataframe main))) @ '' rules; '' @
     quoted (name other) @ '' has '' @
     py_str_nat (length (rows (dataframe other))) @ '' rules.''"

text \<open>An iteration order of string sets that lists \<^verbatim>\<open>header\<close> before
  \<^verbatim>\<open>data_quality_control_name\<close>, and the schema error as the specification words it, with
  the missing column names sorted.\<close>

definition iter_header_first :: "string set \<Rightarrow> string list" where
  "iter_header_first S = [c \<leftarrow> [''header'', ''data_quality_control_name'']. c \<in> S]"

definition spec_schema_error :: "DataFrame \<Rightarrow> error" where
  "spec_schema_error df =
     ValueError (missing_columns_msg (sorted_list_of_set (required - set (columns df))))"

text \<open>Sources with declared fields: two uploads of one file name, one with fields whose
  expected header is not a column or is absent, and one other file.\<close>

definition src_fields :: "string \<Rightarrow> string list \<Rightarrow> (string \<times> (string \<times> string) list) list \<Rightarrow> DataSet" where
  "src_fields nm cols fs = \<lparr>name = nm, dataframe = \<lparr>columns = cols, rows = []\<rparr>, dq_rules = [], fields_dict = fs\<rparr>"

definition src_dup_missing :: DataSet where
  "src_dup_missing = src_fields ''dup.xlsx'' [''header''] [(''owner'', [(''header'', ''Owner'')]), (''hdr'', [(''header'', ''header'')]), (''note'', [])]"

definition src_other_missing :: DataSet where
  "src_other_missing = src_fields ''other.xlsx'' [''header''] [(''hdr'', [(''header'', ''Header'')])]"

definition src_dup_complete :: DataSet where
  "src_dup_complete = src_fields ''dup.xlsx'' [''header''] [(''hdr'', [(''header'', ''header'')])]"

text \<open>Two uploads of one file name, one with a rule that the main source lacks and one with
  the main source's rules, and a file with two rules of its own.\<close>

definition src_dup_extra :: DataSet where
  "src_dup_extra = source_of ''dup.xlsx'' [(''Extra'', ''c''), (''Check B'', ''col3'')]"

definition src_dup_same :: DataSet where
  "src_dup_same = source_of ''dup.xlsx'' [(''check a'', ''col1,col2''), (''CHECK B'', ''col3'')]"

definition src_extra :: DataSet where
  "src_extra = source_of ''extra.xlsx'' [(''Zeta'', ''z''), ('' Alpha '', ''a'')]"

text \<open>
  The mismatch check in the words of the specification: the rule of the main source for a
  normalized name is the one its by-name mapping holds, which is the last rule of the main
  source with that normalized name; a rule of another source is mismatched when the main
  source has a rule for its normalized name and the two header sets differ; the mismatch
  list of a source holds the original names of its mismatched rules, in rule order. Below
  them: a main source with two rules of one normalized name, sources to compare it with,
  and the reading of a result dict as a list per key.
\<close>

definition main_rule_for :: "DataSet \<Rightarrow> string \<Rightarrow> DataQualityRule option" where
  "main_rule_for main nn =
     (case [mr \<leftarrow> dq_rules main. normalized_name mr = nn] of
        [] \<Rightarrow> None
      | y # ys \<Rightarrow> Some (last (y # ys)))"

definition mismatched :: "DataSet \<Rightarrow> DataQualityRule \<Rightarrow> bool" where
  "mismatched main r =
     (case main_rule_for main (normalized_name r) of
        None \<Rightarrow> False
      | Some mr \<Rightarrow> header_set r \<noteq> header_set mr)"

definition mismatch_list :: "DataSet \<Rightarrow> DataSet \<Rightarrow> string list" where
  "mismatch_list main s = [data_quality_control_name r. r \<leftarrow> dq_rules s, mismatched main r]"

definition src_main_dup :: DataSet where
  "src_main_dup = source_of ''main.xlsx'' [(''Check A'', ''col1''), (''Check A'', ''col1,col2'')]"

definition src_one :: DataSet where
  "src_one = source_of ''one.xlsx'' [(''check a'', ''col2,col1'')]"

definition src_diff :: DataSet where
  "src_diff = source_of ''diff.xlsx''
     [(''CHECK B '', ''col3,col4''), (''Only Here'', ''x''), (''Check A'', ''col1'')]"

definition lookup_list :: "(string \<times> string list) list \<Rightarrow> string \<Rightarrow> string list" where
  "lookup_list d n = (case map_of d n of None \<Rightarrow> [] | Some l \<Rightarrow> l)"

definition no_empty_entry :: "(string \<times> string list) list \<Rightarrow> bool" where
  "no_empty_entry d \<longleftrightarrow> (\<forall>n. map_of d n \<noteq> Some [])"








section \<open>Properties of the orchestration\<close>

lemma compare_rule_counts_fst:
  "fst (compare_rule_counts main others) \<longleftrightarrow>
     (\<forall>(k, s) \<in> set others. length (rows (dataframe s)) = length (rows (dataframe main)))"
  by (induction others) (auto simp: Let_def split: if_splits)

lemma map_of_key_Some:
  assumes "k \<in> fst ` set al"
  obtains v where "map_of al k = Some v"
  using assms by (metis map_of_eq_None_iff not_Some_eq)

text \<open>
  Claim C1. A call with a non-empty sources dict, without a main key or with a main key of
  the dict, returns a report. With the main source the source under the main key (the first
  key when none is given) and the others the sources under the other keys, the report holds
  the result of \<open>find_missing_headers\<close> on all sources and the result of
  \<open>compare_rule_counts\<close> on the main source and the others, whose flag says that every other
  source has as many rows as the main source; it holds the results of
  \<open>exclusive_rule_names\<close> and of \<open>sync_check\<close> when the flag is true and two empty dicts
  otherwise. Its \<open>ok\<close> holds exactly when its missing-headers dict is empty, its row counts
  matched, its exclusives dict is empty and its mismatches dict is empty: that is, exactly
  when \<open>find_missing_headers\<close> finds nothing, every other source has as many rows as the main
  source, and \<open>exclusive_rule_names\<close> and \<open>sync_check\<close> find nothing.
\<close>

theorem run_health_check_ok_iff:
  assumes "sources \<noteq> []"
    and "main_key = None \<or> (\<exists>k \<in> fst ` set sources. main_key = Some k)"
    and "mk = (case main_key of None \<Rightarrow> fst (hd sources) | Some k \<Rightarrow> k)"
    and "others = [(k, v) \<leftarrow> sources. k \<noteq> mk]"
  shows "\<exists>r main. map_of sources mk = Some main \<and>
           run_health_check sources main_key = Inr r \<and>
           missing_headers r = find_missing_headers sources \<and>
           (rule_count_ok r, rule_count_msg r) = compare_rule_counts main others \<and>
           (rule_count_ok r \<longleftrightarrow>
              (\<forall>(k, s) \<in> set others. length (rows (dataframe s)) = length (rows (dataframe main)))) \<and>
           exclusives r = (if rule_count_ok r then exclusive_rule_names main others else []) \<and>
           mismatches r = (if rule_count_ok r then sync_check main others else []) \<and>
           (ok r \<longleftrightarrow> missing_headers r = [] \<and> rule_count_ok r \<and>
                     exclusives r = [] \<and> mismatches r = []) \<and>
           (ok r \<longleftrightarrow> find_missing_headers sources = [] \<and>
                     (\<forall>(k, s) \<in> set others.
                        length (rows (dataframe s)) = length (rows (dataframe main))) \<and>
                     exclusive_rule_names main others = [] \<and> sync_check main others = [])"
proof -
  obtain k0 s0 rest where src: "sources = (k0, s0) # rest"
    using assms(1) by (cases sources) auto
  have mk: "mk = (case main_key of None \<Rightarrow> k0 | Some k \<Rightarrow> k)"
    using assms(3) src by (simp split: option.splits)
  have "mk \<in> fst ` set sources"
    using assms(2) src by (force simp: mk)
  then obtain main where main: "map_of sources mk = Some main"
    by (rule map_of_key_Some)
  obtain sc msg where c: "compare_rule_counts main others = (sc, msg)"
    by (cases "compare_rule_counts main others") auto
  have sc: "sc \<longleftrightarrow>
      (\<forall>(k, s) \<in> set others. length (rows (dataframe s)) = length (rows (dataframe main)))"
    using compare_rule_counts_fst [of main others] c by simp
  define rep where "rep =
      \<lparr>ok = find_missing_headers sources = [] \<and> sc \<and>
            (if sc then exclusive_rule_names main others else []) = [] \<and>
            (if sc then sync_check main others else []) = [],
       missing_headers = find_missing_headers sources,
       main_source = name main,
       rule_count_ok = sc,
       rule_count_msg = msg,
       exclusives = (if sc then exclusive_rule_names main others else []),
       mismatches = (if sc then sync_check main others else []),
       emoji = [(''OK'', OK), (''FAIL'', FAIL), (''INFO'', INFO)]\<rparr>"
  have c': "compare_rule_counts main [(k, v) \<leftarrow> sources. k \<noteq> mk] = (sc, msg)"
    using c assms(4) by simp
  have run: "run_health_check sources main_key = Inr rep"
    using main c'
    unfolding run_health_check_def src mk[symmetric] list.case prod.case Let_def rep_def assms(4)
    by (simp add: src[symmetric])
  have f: "missing_headers rep = find_missing_headers sources"
    "rule_count_ok rep = sc" "rule_count_msg rep = msg"
    "exclusives rep = (if sc then exclusive_rule_names main others else [])"
    "mismatches rep = (if sc then sync_check main others else [])"
    "ok rep = (find_missing_headers sources = [] \<and> sc \<and>
            (if sc then exclusive_rule_names main others else []) = [] \<and>
            (if sc then sync_check main others else []) = [])"
    by (simp_all add: rep_def)
  have "map_of sources mk = Some main \<and>
           run_health_check sources main_key = Inr rep \<and>
           missing_headers rep = find_missing_headers sources \<and>
           (rule_count_ok rep, rule_count_msg rep) = compare_rule_counts main others \<and>
           (rule_count_ok rep \<longleftrightarrow>
              (\<forall>(k, s) \<in> set others. length (rows (dataframe s)) = length (rows (dataframe main)))) \<and>
           exclusives rep = (if rule_count_ok rep then exclusive_rule_names main others else []) \<and>
           mismatches rep = (if rule_count_ok rep then sync_check main others else []) \<and>
           (ok rep \<longleftrightarrow> missing_headers rep = [] \<and> rule_count_ok rep \<and>
                     exclusives rep = [] \<and> mismatches rep = []) \<and>
           (ok rep \<longleftrightarrow> find_missing_headers sources = [] \<and>
                     (\<forall>(k, s) \<in> set others.
                        length (rows (dataframe s)) = length (rows (dataframe main))) \<and>
                     exclusive_rule_names main others = [] \<and> sync_check main others = [])"
    unfolding f sc[symmetric] using main run c by (cases sc) simp_all
  then show ?thesis
    by blast
qed

theorem run_health_check_ok_iff_witness:
  "\<exists>r. run_health_check [(''s1'', src_main), (''s2'', src_same)] None = Inr r \<and> ok r"
proof -
  let ?S = "[(''s1'', src_main), (''s2'', src_same)]"
  let ?others = "[(k, v) \<leftarrow> ?S. k \<noteq> ''s1'']"
  have "\<exists>r main. map_of ?S ''s1'' = Some main \<and>
           run_health_check ?S None = Inr r \<and>
           missing_headers r = find_missing_headers ?S \<and>
           (rule_count_ok r, rule_count_msg r) = compare_rule_counts main ?others \<and>
           (rule_count_ok r \<longleftrightarrow>
              (\<forall>(k, s) \<in> set ?others. length (rows (dataframe s)) = length (rows (dataframe main)))) \<and>
           exclusives r = (if rule_count_ok r then exclusive_rule_names main ?others else []) \<and>
           mismatches r = (if rule_count_ok r then sync_check main ?others else []) \<and>
           (ok r \<longleftrightarrow> missing_headers r = [] \<and> rule_count_ok r \<and>
                     exclusives r = [] \<and> mismatches r = []) \<and>
           (ok r \<longleftrightarrow> find_missing_headers ?S = [] \<and>
                     (\<forall>(k, s) \<in> set ?others.
                        length (rows (dataframe s)) = length (rows (dataframe main))) \<and>
                     exclusive_rule_names main ?others = [] \<and> sync_check main ?others = [])"
    by (rule run_health_check_ok_iff) simp_all
  then obtain r main where a: "map_of ?S ''s1'' = Some main"
    and b: "run_health_check ?S None = Inr r"
    and c: "ok r \<longleftrightarrow> find_missing_headers ?S = [] \<and>
                     (\<forall>(k, s) \<in> set ?others.
                        length (rows (dataframe s)) = length (rows (dataframe main))) \<and>
                     exclusive_rule_names main ?others = [] \<and> sync_check main ?others = []"
    by blast
  from a have m: "main = src_main"
    by simp
  have "find_missing_headers ?S = [] \<and>
      (\<forall>(k, s) \<in> set ?others.
         length (rows (dataframe s)) = length (rows (dataframe src_main))) \<and>
      exclusive_rule_names src_main ?others = [] \<and> sync_check src_main ?others = []"
    by code_simp
  with c [unfolded m] have "ok r"
    by (rule iffD2)
  with b show ?thesis
    by blast
qed

text \<open>
  Claim C2. When the main source is the source under the main key (the first key when none
  is given) and some source under another key has a row count other than the main source's,
  the call returns a report whose \<open>rule_count_ok\<close> is false and whose exclusives and
  mismatches dicts are both empty.
\<close>

theorem run_health_check_count_mismatch:
  assumes "sources \<noteq> []"
    and "mk = (case main_key of None \<Rightarrow> fst (hd sources) | Some k \<Rightarrow> k)"
    and "map_of sources mk = Some main"
    and "(k, s) \<in> set sources" and "k \<noteq> mk"
    and "length (rows (dataframe s)) \<noteq> length (rows (dataframe main))"
  shows "\<exists>r. run_health_check sources main_key = Inr r \<and>
           \<not> rule_count_ok r \<and> exclusives r = [] \<and> mismatches r = []"
proof -
  obtain k0 s0 rest where src: "sources = (k0, s0) # rest"
    using assms(1) by (cases sources) auto
  have mk: "mk = (case main_key of None \<Rightarrow> k0 | Some k \<Rightarrow> k)"
    using assms(2) src by (simp split: option.splits)
  have "(k, s) \<in> set [(k, v) \<leftarrow> sources. k \<noteq> mk]"
    using assms(4,5) by simp
  with assms(6) have "\<not> fst (compare_rule_counts main [(k, v) \<leftarrow> sources. k \<noteq> mk])"
    unfolding compare_rule_counts_fst by blast
  then obtain msg where "compare_rule_counts main [(k, v) \<leftarrow> sources. k \<noteq> mk] = (False, msg)"
    by (cases "compare_rule_counts main [(k, v) \<leftarrow> sources. k \<noteq> mk]") auto
  then show ?thesis
    using assms(3) unfolding run_health_check_def src mk[symmetric] list.case prod.case Let_def
    by (simp add: src[symmetric])
qed

theorem run_health_check_count_mismatch_witness:
  "\<exists>r. run_health_check [(''s1'', src_main), (''s2'', src_short)] None = Inr r \<and>
      \<not> rule_count_ok r \<and> exclusives r = [] \<and> mismatches r = []"
proof -
  have "length (rows (dataframe src_short)) \<noteq> length (rows (dataframe src_main))"
    by (simp add: src_short_def src_main_def source_of_def table_of_def)
  then show ?thesis
    using run_health_check_count_mismatch
      [of "[(''s1'', src_main), (''s2'', src_short)]" "''s1''" None src_main "''s2''" src_short]
    by simp
qed

text \<open>
  Claim C5. The call fails with the error \<^verbatim>\<open>ValueError("No sources uploaded.")\<close>, which is
  the empty-input error of the specification, exactly when the sources dict is empty; a call
  that fails returns no report.
\<close>

theorem run_health_check_empty_iff:
  "(run_health_check sources main_key = Inl (ValueError ''No sources uploaded.'')
      \<longleftrightarrow> sources = []) \<and>
   run_health_check [] main_key = Inl (ValueError ''No sources uploaded.'') \<and>
   (\<forall>r. run_health_check [] main_key \<noteq> Inr r)"
  by (auto simp: run_health_check_def Let_def split: list.splits option.splits prod.splits)

theorem run_health_check_empty_iff_witness:
  "run_health_check [] None = Inl (ValueError ''No sources uploaded.'') \<and>
   run_health_check [(''s1'', src_main)] None \<noteq> Inl (ValueError ''No sources uploaded.'')"
  using run_health_check_empty_iff [of "[]" None]
    run_health_check_empty_iff [of "[(''s1'', src_main)]" None]
  by simp

text \<open>
  Claim C10. A call with a non-empty sources dict and a main key that is given but is not a
  key of the dict fails with \<^verbatim>\<open>KeyError\<close> of that key: it neither falls back to the first
  source nor returns a report.
\<close>

theorem run_health_check_unknown_key:
  assumes "sources \<noteq> []" and "k \<notin> fst ` set sources"
  shows "run_health_check sources (Some k) = Inl (KeyError k)"
proof -
  from assms(2) have "map_of sources k = None"
    by (simp add: map_of_eq_None_iff)
  with assms(1) show ?thesis
    by (cases sources) (auto simp: run_health_check_def)
qed

theorem run_health_check_unknown_key_witness:
  "run_health_check [(''s1'', src_main), (''s2'', src_same)] (Some ''s3'') = Inl (KeyError ''s3'')"
  using run_health_check_unknown_key [of "[(''s1'', src_main), (''s2'', src_same)]" "''s3''"]
  by simp

section \<open>Row-count comparison\<close>

text \<open>
  Claim C3, as stated, fails on the message: the code ends the failure message with the
  second count and a full stop, without the word \<^verbatim>\<open>rules\<close> that the specification puts
  after it. With a main source of two rows and another source of one row the message is
  \<^verbatim>\<open>'main.xlsx' has 2 rules; 'short.xlsx' has 1.\<close> after the glyph.
\<close>

theorem compare_rule_counts_message_counterexample:
  "compare_rule_counts src_main [(''s2'', src_short)] =
     (False, FAIL @ '' '' @ quoted ''main.xlsx'' @ '' has 2 rules; '' @
             quoted ''short.xlsx'' @ '' has 1.'') \<and>
   compare_rule_counts src_main [(''s2'', src_short)] \<noteq>
     (False, spec_fail_msg src_main src_short)"
  by code_simp

text \<open>
  Claim C3, amended. At the first other source, in insertion order, whose row count \<open>n\<close>
  differs from the main source's row count \<open>m\<close>, the comparison returns false with the
  message \<^verbatim>\<open><FAIL> '<main.name>' has <m> rules; '<other.name>' has <n>.\<close>, whatever
  sources come later; when no other source's row count differs it returns true with the
  message \<^verbatim>\<open><OK> All sources have the same number of rules as '<main.name>'.\<close>
\<close>

theorem compare_rule_counts_first_mismatch:
  "((\<forall>(k', s') \<in> set pre. length (rows (dataframe s')) = length (rows (dataframe main))) \<and>
    length (rows (dataframe s)) \<noteq> length (rows (dataframe main)) \<longrightarrow>
    compare_rule_counts main (pre @ (k, s) # post) =
      (False, FAIL @ '' '' @ quoted (name main) @ '' has '' @
              py_str_nat (length (rows (dataframe main))) @ '' rules; '' @
              quoted (name s) @ '' has '' @ py_str_nat (length (rows (dataframe s))) @ ''.'')) \<and>
   ((\<forall>(k', s') \<in> set others. length (rows (dataframe s')) = length (rows (dataframe main))) \<longrightarrow>
    compare_rule_counts main others =
      (True, OK @ '' All sources have the same number of rules as '' @ quoted (name main) @ ''.''))"
proof (intro conjI impI)
  assume "(\<forall>(k', s') \<in> set pre. length (rows (dataframe s')) = length (rows (dataframe main))) \<and>
    length (rows (dataframe s)) \<noteq> length (rows (dataframe main))"
  then show "compare_rule_counts main (pre @ (k, s) # post) =
      (False, FAIL @ '' '' @ quoted (name main) @ '' has '' @
              py_str_nat (length (rows (dataframe main))) @ '' rules; '' @
              quoted (name s) @ '' has '' @ py_str_nat (length (rows (dataframe s))) @ ''.'')"
    by (induction pre) (auto simp: Let_def)
next
  assume "\<forall>(k', s') \<in> set others. length (rows (dataframe s')) = length (rows (dataframe main))"
  then show "compare_rule_counts main others =
      (True, OK @ '' All sources have the same number of rules as '' @ quoted (name main) @ ''.'')"
    by (induction others) (auto simp: Let_def)
qed

theorem compare_rule_counts_first_mismatch_witness:
  "compare_rule_counts src_main [(''s2'', src_same), (''s3'', src_short), (''s4'', src_same)] =
     (False, FAIL @ '' '' @ quoted ''main.xlsx'' @ '' has 2 rules; '' @
             quoted ''short.xlsx'' @ '' has 1.'') \<and>
   compare_rule_counts src_main [(''s2'', src_same)] =
     (True, OK @ '' All sources have the same number of rules as '' @ quoted ''main.xlsx'' @ ''.'')"
proof -
  have len: "length (rows (dataframe src_main)) = 2" "length (rows (dataframe src_same)) = 2"
    "length (rows (dataframe src_short)) = 1"
    by (simp_all add: src_main_def src_same_def src_short_def source_of_def table_of_def)
  have nm: "name src_main = ''main.xlsx''" "name src_short = ''short.xlsx''"
    by (simp_all add: src_main_def src_short_def source_of_def)
  have s2: "py_str_nat 2 = ''2''" and s1: "py_str_nat (Suc 0) = ''1''"
    by code_simp+
  show ?thesis
    using compare_rule_counts_first_mismatch
      [of "[(''s2'', src_same)]" src_main src_short "''s3''" "[(''s4'', src_same)]"
          "[(''s2'', src_same)]"]
    by (simp add: len nm s1 s2)
qed

section \<open>Rule extraction\<close>

text \<open>
  Claim C4, as stated, fails on the order: the error message holds the missing column names
  in the iteration order of a Python set, which the code does not sort (it sorts only the
  list of expected columns). For a table with neither required column and an interpreter
  whose set lists \<^verbatim>\<open>header\<close> first, the message names \<^verbatim>\<open>header\<close> before
  \<^verbatim>\<open>data_quality_control_name\<close>, which is not the sorted order.
\<close>

theorem rules_from_df_order_counterexample:
  "rules_from_df iter_header_first \<lparr>columns = [''id''], rows = []\<rparr> =
     Inl (ValueError (missing_columns_msg [''header'', ''data_quality_control_name''])) \<and>
   rules_from_df iter_header_first \<lparr>columns = [''id''], rows = []\<rparr> \<noteq>
     Inl (spec_schema_error \<lparr>columns = [''id''], rows = []\<rparr>) \<and>
   sorted_list_of_set (required - set [''id'']) = [''data_quality_control_name'', ''header'']"
  by code_simp

text \<open>
  Claim C4, amended. For a table that lacks a required column, extraction fails with the
  \<^verbatim>\<open>ValueError\<close> whose message holds the missing column names, each once, in the
  iteration order of the set of missing names, and returns no rule list; for a table with
  both required columns it returns one rule per row, in row order, the name being the string
  of the name cell and the header the empty string for a missing value and the string of the
  header cell otherwise.
\<close>

theorem rules_from_df_result:
  assumes "distinct (set_iter (required - set (columns df)))"
    and "set (set_iter (required - set (columns df))) = required - set (columns df)"
  shows "(''data_quality_control_name'' \<notin> set (columns df) \<or> ''header'' \<notin> set (columns df) \<longrightarrow>
          (\<exists>missing. rules_from_df set_iter df = Inl (ValueError (missing_columns_msg missing)) \<and>
             mset missing =
               mset [c \<leftarrow> [''data_quality_control_name'', ''header'']. c \<notin> set (columns df)])) \<and>
         (''data_quality_control_name'' \<in> set (columns df) \<and> ''header'' \<in> set (columns df) \<longrightarrow>
          (\<exists>rs. rules_from_df set_iter df = Inr rs \<and> length rs = length (rows df) \<and>
             (\<forall>i < length rs.
                data_quality_control_name (rs ! i) =
                  str_of ((rows df ! i) ''data_quality_control_name'') \<and>
                header (rs ! i) =
                  (if isna ((rows df ! i) ''header'') then []
                   else str_of ((rows df ! i) ''header'')))))"
proof (intro conjI impI)
  assume miss: "''data_quality_control_name'' \<notin> set (columns df) \<or> ''header'' \<notin> set (columns df)"
  let ?m = "set_iter (required - set (columns df))"
  let ?l = "[c \<leftarrow> [''data_quality_control_name'', ''header'']. c \<notin> set (columns df)]"
  have sl: "set ?l = required - set (columns df)"
    by (auto simp: required_def)
  have dl: "distinct ?l"
    by simp
  have step: "(set ?m = set ?l) = (mset ?m = mset ?l)"
    using assms(1) dl by (rule set_eq_iff_mset_eq_distinct)
  have eq: "set ?m = set ?l"
    using assms(2) sl by (simp only:)
  have "mset ?m = mset ?l"
    using step eq by (rule iffD1)
  moreover have "rules_from_df set_iter df = Inl (ValueError (missing_columns_msg ?m))"
    using miss by (auto simp: rules_from_df_def required_def)
  ultimately show "\<exists>missing. rules_from_df set_iter df = Inl (ValueError (missing_columns_msg missing)) \<and>
             mset missing = mset ?l"
    by blast
next
  assume "''data_quality_control_name'' \<in> set (columns df) \<and> ''header'' \<in> set (columns df)"
  then have "rules_from_df set_iter df = Inr (map rule_of_row (rows df))"
    by (simp add: rules_from_df_def required_def)
  then show "\<exists>rs. rules_from_df set_iter df = Inr rs \<and> length rs = length (rows df) \<and>
             (\<forall>i < length rs.
                data_quality_control_name (rs ! i) =
                  str_of ((rows df ! i) ''data_quality_control_name'') \<and>
                header (rs ! i) =
                  (if isna ((rows df ! i) ''header'') then []
                   else str_of ((rows df ! i) ''header'')))"
    by (simp add: rule_of_row_def)
qed

theorem rules_from_df_result_witness:
  "(\<exists>missing. rules_from_df iter_header_first \<lparr>columns = [''data_quality_control_name''], rows = []\<rparr> =
       Inl (ValueError (missing_columns_msg missing)) \<and> mset missing = mset [''header'']) \<and>
   (\<exists>rs. rules_from_df iter_header_first (table_of [(''Check A'', ''col1,col2'')]) = Inr rs \<and>
      length rs = 1)"
proof -
  have a: "distinct (iter_header_first (required - set (columns df)))" for df
    by (simp add: iter_header_first_def)
  have b: "set (iter_header_first (required - set (columns df))) = required - set (columns df)" for df
    by (auto simp: iter_header_first_def required_def)
  have "\<exists>missing. rules_from_df iter_header_first \<lparr>columns = [''data_quality_control_name''], rows = []\<rparr> =
       Inl (ValueError (missing_columns_msg missing)) \<and> mset missing = mset [''header'']"
    using rules_from_df_result [of iter_header_first "\<lparr>columns = [''data_quality_control_name''], rows = []\<rparr>", OF a b]
    by simp
  moreover have "\<exists>rs. rules_from_df iter_header_first (table_of [(''Check A'', ''col1,col2'')]) = Inr rs \<and>
      length rs = 1"
    using rules_from_df_result [of iter_header_first "table_of [(''Check A'', ''col1,col2'')]", OF a b]
    by (auto simp: table_of_def)
  ultimately show ?thesis by blast
qed

section \<open>Dicts keyed by the display name\<close>

lemma concat_if_filter:
  "concat (map (\<lambda>(f, m). if P m then [f] else []) xs) = map fst (filter (\<lambda>(f, m). P m) xs)"
  by (induction xs) auto

lemma missing_fields_filter:
  "missing_fields src =
     map fst (filter (\<lambda>(f, meta). map_of meta ''header'' = None \<or> map_of meta ''header'' = Some [] \<or>
                (\<exists>h. map_of meta ''header'' = Some h \<and> h \<notin> set (columns (dataframe src))))
              (fields_dict src))"
proof -
  have "field_missing src = (\<lambda>meta.
      (map_of meta ''header'' = None \<or> map_of meta ''header'' = Some [] \<or>
        (\<exists>h. map_of meta ''header'' = Some h \<and> h \<notin> set (columns (dataframe src)))))"
    by (auto simp: field_missing_def fun_eq_iff split: option.splits)
  then show ?thesis
    unfolding missing_fields_def by (simp only: concat_if_filter)
qed

lemma fold_update_lookup:
  "map_of (fold (\<lambda>x d. if g x \<noteq> [] then AList.update (key x) (g x) d else d) xs d0) n =
     (case [x \<leftarrow> xs. key x = n \<and> g x \<noteq> []] of
        [] \<Rightarrow> map_of d0 n
      | y # ys \<Rightarrow> Some (g (last (y # ys))))"
proof (induction xs arbitrary: d0)
  case Nil
  then show ?case by simp
next
  case (Cons x xs)
  show ?case
    by (simp add: Cons.IH update_conv' split: list.splits)
qed

lemma find_missing_headers_fold:
  "find_missing_headers sources =
     fold (\<lambda>x d. if missing_fields x \<noteq> [] then AList.update (name x) (missing_fields x) d else d)
       (map snd sources) []"
  unfolding find_missing_headers_def fold_map
  by (rule arg_cong [where f = "\<lambda>f. fold f sources []"]) (auto simp: fun_eq_iff Let_def)


lemma filter_distinct_key:
  "distinct (map f xs) \<Longrightarrow> x \<in> set xs \<Longrightarrow>
     filter (\<lambda>y. f y = f x \<and> P y) xs = (if P x then [x] else [])"
proof (induction xs)
  case Nil
  then show ?case by simp
next
  case (Cons a xs)
  have none: "filter (\<lambda>y. f y = f a \<and> P y) xs = []" if "f a \<notin> f ` set xs"
    using that by (simp add: filter_empty_conv) (metis imageI)
  show ?case
  proof (cases "x = a")
    case True
    with Cons.prems none show ?thesis by auto
  next
    case False
    with Cons.prems have "x \<in> set xs" "f a \<noteq> f x" by auto
    with Cons show ?thesis by auto
  qed
qed

section \<open>Missing headers\<close>

text \<open>
  Claim C8, as stated, fails when two sources have one display name: the result dict is
  keyed by the display name, so a source with no missing field has an entry when another
  source of the same name (two uploads of a file called \<^verbatim>\<open>dup.xlsx\<close>) has one.
\<close>

theorem find_missing_headers_counterexample:
  "find_missing_headers [(''s1'', src_dup_missing), (''s2'', src_dup_complete)] =
     [(''dup.xlsx'', [''owner'', ''note''])] \<and>
   missing_fields src_dup_complete = [] \<and> name src_dup_complete = ''dup.xlsx''"
  by code_simp

text \<open>
  Claim C8, amended. The fields of a source that are missing are, in the order of its fields
  dict, those whose expected header is absent, empty, or not one of the column names of the
  source's table by exact string match. The result dict holds under a display name the
  missing fields of the last source of that name that has any, and nothing under a name no
  source of which has a missing field; so when the display names of the sources are pairwise
  distinct, each source with missing fields has exactly them under its name and a source
  with zero missing fields has no entry.
\<close>

theorem find_missing_headers_result:
  "missing_fields src =
     map fst (filter (\<lambda>(f, meta). map_of meta ''header'' = None \<or> map_of meta ''header'' = Some [] \<or>
                (\<exists>h. map_of meta ''header'' = Some h \<and> h \<notin> set (columns (dataframe src))))
              (fields_dict src)) \<and>
   map_of (find_missing_headers sources) n =
     (case [s \<leftarrow> map snd sources. name s = n \<and> missing_fields s \<noteq> []] of
        [] \<Rightarrow> None
      | y # ys \<Rightarrow> Some (missing_fields (last (y # ys)))) \<and>
   (distinct (map (name \<circ> snd) sources) \<and> (k, src) \<in> set sources \<longrightarrow>
      map_of (find_missing_headers sources) (name src) =
        (if missing_fields src = [] then None else Some (missing_fields src)))"
proof (intro conjI impI)
  show "missing_fields src =
     map fst (filter (\<lambda>(f, meta). map_of meta ''header'' = None \<or> map_of meta ''header'' = Some [] \<or>
                (\<exists>h. map_of meta ''header'' = Some h \<and> h \<notin> set (columns (dataframe src))))
              (fields_dict src))"
    by (rule missing_fields_filter)
next
  show "map_of (find_missing_headers sources) n =
     (case [s \<leftarrow> map snd sources. name s = n \<and> missing_fields s \<noteq> []] of
        [] \<Rightarrow> None
      | y # ys \<Rightarrow> Some (missing_fields (last (y # ys))))"
    unfolding find_missing_headers_fold fold_update_lookup by (simp split: list.splits)
next
  assume a: "distinct (map (name \<circ> snd) sources) \<and> (k, src) \<in> set sources"
  then have d: "distinct (map name (map snd sources))" and m: "src \<in> set (map snd sources)"
    by (simp, force)
  have "[s \<leftarrow> map snd sources. name s = name src \<and> missing_fields s \<noteq> []] =
      (if missing_fields src \<noteq> [] then [src] else [])"
    using d m by (rule filter_distinct_key)
  then show "map_of (find_missing_headers sources) (name src) =
        (if missing_fields src = [] then None else Some (missing_fields src))"
    unfolding find_missing_headers_fold fold_update_lookup by (simp split: list.splits)
qed

theorem find_missing_headers_result_witness:
  "map_of (find_missing_headers [(''s1'', src_dup_missing), (''s2'', src_other_missing),
      (''s3'', src_main)]) ''dup.xlsx'' = Some [''owner'', ''note''] \<and>
   map_of (find_missing_headers [(''s1'', src_dup_missing), (''s2'', src_other_missing),
      (''s3'', src_main)]) ''main.xlsx'' = None"
proof -
  let ?srcs = "[(''s1'', src_dup_missing), (''s2'', src_other_missing), (''s3'', src_main)]"
  have d: "distinct (map (name \<circ> snd) ?srcs)"
    by (simp add: src_dup_missing_def src_other_missing_def src_main_def src_fields_def
        source_of_def)
  have m1: "missing_fields src_dup_missing = [''owner'', ''note'']"
    and m3: "missing_fields src_main = []"
    by code_simp+
  have n1: "name src_dup_missing = ''dup.xlsx''" and n3: "name src_main = ''main.xlsx''"
    by (simp_all add: src_dup_missing_def src_main_def src_fields_def source_of_def)
  have in1: "(''s1'', src_dup_missing) \<in> set ?srcs" and in3: "(''s3'', src_main) \<in> set ?srcs"
    by simp_all
  note t1 = find_missing_headers_result [of src_dup_missing ?srcs "''dup.xlsx''" "''s1''",
      THEN conjunct2, THEN conjunct2, rule_format, OF conjI [OF d in1]]
  note t3 = find_missing_headers_result [of src_main ?srcs "''main.xlsx''" "''s3''",
      THEN conjunct2, THEN conjunct2, rule_format, OF conjI [OF d in3]]
  show ?thesis
    using t1 t3 unfolding m1 m3 n1 n3 by simp
qed

section \<open>Exclusive rules\<close>

lemma finite_rule_names_diff: "finite (rule_names s - A)"
  by (simp add: rule_names_def)

lemma exclusive_rule_names_fold:
  "exclusive_rule_names main others =
     fold (\<lambda>x d. if sorted_list_of_set (rule_names x - rule_names main) \<noteq> []
                  then AList.update (name x) (sorted_list_of_set (rule_names x - rule_names main)) d
                  else d)
       (map snd others) []"
  unfolding exclusive_rule_names_def fold_map Let_def
  by (rule arg_cong [where f = "\<lambda>f. fold f others []"])
     (auto simp: fun_eq_iff sorted_list_of_set_eq_Nil_iff finite_rule_names_diff)

text \<open>
  Claim C6, as stated, fails when two other sources have one display name: the result dict
  is keyed by the display name, so a source whose difference is empty is present in it when
  another source of the same name has a rule that the main source lacks.
\<close>

theorem exclusive_rule_names_counterexample:
  "exclusive_rule_names src_main [(''s2'', src_dup_extra), (''s3'', src_dup_same)] =
     [(''dup.xlsx'', [''extra''])] \<and>
   rule_names src_dup_same - rule_names src_main = {} \<and> name src_dup_same = ''dup.xlsx''"
  by code_simp

text \<open>
  Claim C6, amended. The result dict holds under a display name the sorted list of the
  normalized rule names that the last other source of that name with a non-empty difference
  has and the main source lacks, and nothing under a name no source of which has such a
  rule; so when the display names of the other sources are pairwise distinct, the name of
  each other source maps to its own difference \<open>rule_names s - rule_names main\<close> as a
  sorted list without repetition, and a source whose difference is empty is absent.
\<close>

theorem exclusive_rule_names_result:
  "map_of (exclusive_rule_names main others) n =
     (case [s \<leftarrow> map snd others. name s = n \<and> rule_names s - rule_names main \<noteq> {}] of
        [] \<Rightarrow> None
      | y # ys \<Rightarrow> Some (sorted_list_of_set (rule_names (last (y # ys)) - rule_names main))) \<and>
   (distinct (map (name \<circ> snd) others) \<and> (k, s) \<in> set others \<longrightarrow>
      (case map_of (exclusive_rule_names main others) (name s) of
         None \<Rightarrow> rule_names s - rule_names main = {}
       | Some l \<Rightarrow> rule_names s - rule_names main \<noteq> {} \<and> sorted l \<and> distinct l \<and>
           set l = rule_names s - rule_names main))"
proof (intro conjI impI)
  have ne: "(sorted_list_of_set (rule_names x - rule_names main) \<noteq> []) =
      (rule_names x - rule_names main \<noteq> {})" for x
    by (simp add: sorted_list_of_set_eq_Nil_iff finite_rule_names_diff)
  show "map_of (exclusive_rule_names main others) n =
     (case [s \<leftarrow> map snd others. name s = n \<and> rule_names s - rule_names main \<noteq> {}] of
        [] \<Rightarrow> None
      | y # ys \<Rightarrow> Some (sorted_list_of_set (rule_names (last (y # ys)) - rule_names main)))"
    by (simp only: exclusive_rule_names_fold fold_update_lookup)
       (simp add: ne cong: list.case_cong)
  assume a: "distinct (map (name \<circ> snd) others) \<and> (k, s) \<in> set others"
  then have d: "distinct (map name (map snd others))" and m: "s \<in> set (map snd others)"
    by (simp, force)
  have "[x \<leftarrow> map snd others. name x = name s \<and>
          sorted_list_of_set (rule_names x - rule_names main) \<noteq> []] =
      (if sorted_list_of_set (rule_names s - rule_names main) \<noteq> [] then [s] else [])"
    using d m by (rule filter_distinct_key)
  then have "map_of (exclusive_rule_names main others) (name s) =
      (if rule_names s - rule_names main = {} then None
       else Some (sorted_list_of_set (rule_names s - rule_names main)))"
    by (simp only: exclusive_rule_names_fold fold_update_lookup) (simp add: ne)
  then show "case map_of (exclusive_rule_names main others) (name s) of
         None \<Rightarrow> rule_names s - rule_names main = {}
       | Some l \<Rightarrow> rule_names s - rule_names main \<noteq> {} \<and> sorted l \<and> distinct l \<and>
           set l = rule_names s - rule_names main"
    by (simp add: finite_rule_names_diff)
qed

theorem exclusive_rule_names_result_witness:
  "map_of (exclusive_rule_names src_main [(''s2'', src_same), (''s3'', src_extra)]) ''extra.xlsx'' =
     Some [''alpha'', ''zeta''] \<and>
   map_of (exclusive_rule_names src_main [(''s2'', src_same), (''s3'', src_extra)]) ''same.xlsx'' =
     None"
proof -
  let ?o = "[(''s2'', src_same), (''s3'', src_extra)]"
  have "map_of (exclusive_rule_names src_main ?o) ''extra.xlsx'' =
      (case [s \<leftarrow> map snd ?o. name s = ''extra.xlsx'' \<and> rule_names s - rule_names src_main \<noteq> {}] of
        [] \<Rightarrow> None
      | y # ys \<Rightarrow> Some (sorted_list_of_set (rule_names (last (y # ys)) - rule_names src_main)))"
    by (rule exclusive_rule_names_result [THEN conjunct1])
  also have "\<dots> = Some [''alpha'', ''zeta'']"
    by code_simp
  finally have 1: "map_of (exclusive_rule_names src_main ?o) ''extra.xlsx'' = Some [''alpha'', ''zeta'']" .
  have "map_of (exclusive_rule_names src_main ?o) ''same.xlsx'' =
      (case [s \<leftarrow> map snd ?o. name s = ''same.xlsx'' \<and> rule_names s - rule_names src_main \<noteq> {}] of
        [] \<Rightarrow> None
      | y # ys \<Rightarrow> Some (sorted_list_of_set (rule_names (last (y # ys)) - rule_names src_main)))"
    by (rule exclusive_rule_names_result [THEN conjunct1])
  also have "\<dots> = None"
    by code_simp
  finally have 2: "map_of (exclusive_rule_names src_main ?o) ''same.xlsx'' = None" .
  from 1 2 show ?thesis by (rule conjI)
qed

section \<open>Sync check\<close>

lemma fold_update_all_lookup:
  "map_of (fold (\<lambda>x d. AList.update (key x) (val x) d) xs d0) n =
     (case [x \<leftarrow> xs. key x = n] of
        [] \<Rightarrow> map_of d0 n
      | y # ys \<Rightarrow> Some (val (last (y # ys))))"
proof (induction xs arbitrary: d0)
  case Nil
  then show ?case by simp
next
  case (Cons x xs)
  show ?case
    by (simp add: Cons.IH update_conv' split: list.splits)
qed

lemma rule_by_name_lookup: "map_of (rule_by_name main) nn = main_rule_for main nn"
  unfolding rule_by_name_def main_rule_for_def
  by (simp only: fold_update_all_lookup) (simp cong: list.case_cong)

lemma map_of_setdefault_append:
  "map_of (setdefault_append k x d) n =
     (if n = k then Some (lookup_list d k @ [x]) else map_of d n)"
  by (auto simp: setdefault_append_def lookup_list_def update_conv' map_add_def
      split: option.splits)

lemma lookup_list_setdefault_append:
  "lookup_list (setdefault_append k x d) n =
     (if n = k then lookup_list d k @ [x] else lookup_list d n)"
  by (simp add: lookup_list_def [of "setdefault_append k x d"] map_of_setdefault_append)
     (simp add: lookup_list_def)

lemma no_empty_entry_setdefault_append:
  "no_empty_entry d \<Longrightarrow> no_empty_entry (setdefault_append k x d)"
  by (simp add: no_empty_entry_def map_of_setdefault_append)

lemma inner_fold:
  "lookup_list (fold (\<lambda>r mm. if c r then setdefault_append k (v r) mm else mm) rs d) n =
     lookup_list d n @ (if n = k then [v r. r \<leftarrow> rs, c r] else [])"
  by (induction rs arbitrary: d) (auto simp: lookup_list_setdefault_append)

lemma inner_fold_no_empty:
  "no_empty_entry d \<Longrightarrow>
     no_empty_entry (fold (\<lambda>r mm. if c r then setdefault_append k (v r) mm else mm) rs d)"
  by (induction rs arbitrary: d) (auto simp: no_empty_entry_setdefault_append)


lemma sync_check_fold:
  "sync_check main others =
     fold (\<lambda>s mm. fold (\<lambda>r mm. if mismatched main r
                                   then setdefault_append (name s) (data_quality_control_name r) mm
                                   else mm) (dq_rules s) mm)
       (map snd others) []"
proof -
  have step: "(case map_of (rule_by_name main) (normalized_name r) of
                 None \<Rightarrow> mm
               | Some mr \<Rightarrow> if header_set r \<noteq> header_set mr
                            then setdefault_append k (data_quality_control_name r) mm else mm) =
      (if mismatched main r then setdefault_append k (data_quality_control_name r) mm else mm)"
    for r mm k
    by (simp add: rule_by_name_lookup mismatched_def split: option.splits)
  show ?thesis
    unfolding sync_check_def fold_map Let_def step
    by (rule arg_cong [where f = "\<lambda>f. fold f others []"]) (auto simp: fun_eq_iff cong: if_cong)
qed

lemma outer_fold:
  "lookup_list (fold (\<lambda>s mm. fold (\<lambda>r mm. if mismatched main r
                                   then setdefault_append (name s) (data_quality_control_name r) mm
                                   else mm) (dq_rules s) mm) ss d) n =
     lookup_list d n @ concat (map (mismatch_list main) (filter (\<lambda>s. name s = n) ss))"
  by (induction ss arbitrary: d) (auto simp: inner_fold mismatch_list_def)

lemma outer_fold_no_empty:
  "no_empty_entry d \<Longrightarrow>
     no_empty_entry (fold (\<lambda>s mm. fold (\<lambda>r mm. if mismatched main r
                                   then setdefault_append (name s) (data_quality_control_name r) mm
                                   else mm) (dq_rules s) mm) ss d)"
  by (induction ss arbitrary: d) (auto simp: inner_fold_no_empty)

lemma map_of_from_lookup_list:
  "no_empty_entry d \<Longrightarrow>
     map_of d n = (case lookup_list d n of [] \<Rightarrow> None | x # xs \<Rightarrow> Some (x # xs))"
  by (auto simp: no_empty_entry_def lookup_list_def split: option.splits list.splits)

lemma sync_check_lookup:
  "map_of (sync_check main others) n =
     (case concat (map (mismatch_list main) (filter (\<lambda>s. name s = n) (map snd others))) of
        [] \<Rightarrow> None
      | x # xs \<Rightarrow> Some (x # xs))"
proof -
  have ne: "no_empty_entry (sync_check main others)"
    unfolding sync_check_fold by (rule outer_fold_no_empty) (simp add: no_empty_entry_def)
  have "lookup_list (sync_check main others) n =
      concat (map (mismatch_list main) (filter (\<lambda>s. name s = n) (map snd others)))"
    unfolding sync_check_fold outer_fold by (simp add: lookup_list_def)
  with map_of_from_lookup_list [OF ne, of n] show ?thesis
    by simp
qed

text \<open>
  Claim C7, as stated, fails when the main source has two rules of one normalized name: the
  by-name mapping keeps the last of them only. Here the main source has \<^verbatim>\<open>Check A\<close>
  first with the header \<^verbatim>\<open>col1\<close> and then with \<^verbatim>\<open>col1,col2\<close>; the other source's rule
  \<^verbatim>\<open>check a\<close> with \<^verbatim>\<open>col2,col1\<close> has the header set of the second, so nothing is
  appended, although the main source contains a rule of the same normalized name (the first)
  whose header set differs.
\<close>

theorem sync_check_counterexample:
  "sync_check src_main_dup [(''s2'', src_one)] = [] \<and>
   \<lparr>data_quality_control_name = ''check a'', header = ''col2,col1''\<rparr> \<in> set (dq_rules src_one) \<and>
   \<lparr>data_quality_control_name = ''Check A'', header = ''col1''\<rparr> \<in> set (dq_rules src_main_dup) \<and>
   normalized_name \<lparr>data_quality_control_name = ''Check A'', header = ''col1''\<rparr> =
     normalized_name \<lparr>data_quality_control_name = ''check a'', header = ''col2,col1''\<rparr> \<and>
   header_set \<lparr>data_quality_control_name = ''Check A'', header = ''col1''\<rparr> \<noteq>
     header_set \<lparr>data_quality_control_name = ''check a'', header = ''col2,col1''\<rparr>"
  by code_simp

text \<open>
  Claim C7, amended. The list that the result dict holds under a display name is made of
  the mismatch lists of the other sources of that name, in source order: the original names,
  in rule order, of those rules for whose normalized name the by-name mapping of the main
  source (where the last rule of a normalized name wins) holds a rule with a different header
  set; rules whose normalized name the mapping lacks are skipped, and a name with nothing to
  list has no entry. So when the display names of the other sources are pairwise distinct,
  each source with mismatches has exactly its own mismatch list under its name.
\<close>

theorem sync_check_result:
  "map_of (sync_check main others) n =
     (case concat (map (mismatch_list main) (filter (\<lambda>s. name s = n) (map snd others))) of
        [] \<Rightarrow> None
      | x # xs \<Rightarrow> Some (x # xs)) \<and>
   (distinct (map (name \<circ> snd) others) \<and> (k, s) \<in> set others \<longrightarrow>
      map_of (sync_check main others) (name s) =
        (if mismatch_list main s = [] then None else Some (mismatch_list main s)))"
proof (intro conjI impI)
  show "map_of (sync_check main others) n =
     (case concat (map (mismatch_list main) (filter (\<lambda>s. name s = n) (map snd others))) of
        [] \<Rightarrow> None
      | x # xs \<Rightarrow> Some (x # xs))"
    by (rule sync_check_lookup)
next
  assume a: "distinct (map (name \<circ> snd) others) \<and> (k, s) \<in> set others"
  then have d: "distinct (map name (map snd others))" and m: "s \<in> set (map snd others)"
    by (simp, force)
  have "filter (\<lambda>y. name y = name s \<and> True) (map snd others) = (if True then [s] else [])"
    using d m by (rule filter_distinct_key)
  then have "filter (\<lambda>y. name y = name s) (map snd others) = [s]"
    by simp
  then show "map_of (sync_check main others) (name s) =
        (if mismatch_list main s = [] then None else Some (mismatch_list main s))"
    by (simp add: sync_check_lookup split: list.splits)
qed

theorem sync_check_result_witness:
  "map_of (sync_check src_main [(''s2'', src_same), (''s3'', src_diff)]) ''diff.xlsx'' =
     Some [''CHECK B '', ''Check A''] \<and>
   map_of (sync_check src_main [(''s2'', src_same), (''s3'', src_diff)]) ''same.xlsx'' = None"
proof -
  let ?o = "[(''s2'', src_same), (''s3'', src_diff)]"
  have "map_of (sync_check src_main ?o) ''diff.xlsx'' =
      (case concat (map (mismatch_list src_main) (filter (\<lambda>s. name s = ''diff.xlsx'') (map snd ?o))) of
        [] \<Rightarrow> None
      | x # xs \<Rightarrow> Some (x # xs))"
    by (rule sync_check_result [THEN conjunct1])
  also have "\<dots> = Some [''CHECK B '', ''Check A'']"
    by code_simp
  finally have 1: "map_of (sync_check src_main ?o) ''diff.xlsx'' = Some [''CHECK B '', ''Check A'']" .
  have "map_of (sync_check src_main ?o) ''same.xlsx'' =
      (case concat (map (mismatch_list src_main) (filter (\<lambda>s. name s = ''same.xlsx'') (map snd ?o))) of
        [] \<Rightarrow> None
      | x # xs \<Rightarrow> Some (x # xs))"
    by (rule sync_check_result [THEN conjunct1])
  also have "\<dots> = None"
    by code_simp
  finally have 2: "map_of (sync_check src_main ?o) ''same.xlsx'' = None" .
  from 1 2 show ?thesis by (rule conjI)
qed

section \<open>Header sets\<close>
































end
